theory Spec2Isabelle
  imports
    Main
    "HOL-Library.Sublist"
    "HOL-Library.Multiset"
    "HOL-Library.Char_ord"
    "HOL-Library.List_Lexorder"
    "HOL-Library.Option_ord"
    "HOL-Library.Product_Lexorder"
begin

section \<open>JavaScript values\<close>

text \<open>
  The front end passes values of TypeScript type \<open>any\<close> through its handlers
  (cells of a \<open>DataRow\<close>, the reply of the rule parser, an AI suggestion, the
  form of the visual rule builder).  They are modelled as JSON values, with
  \<open>JUndefined\<close> for an absent property.  Numbers are the integers a JSON reply
  or a row index can hold; the handlers below only test them for zero.
  An object is an association list in the order of its keys.
\<close>

datatype json =
    JUndefined
  | JNull
  | JBool bool
  | JNum int
  | JStr string
  | JArr "json list"
  | JObj "(string \<times> json) list"

type_synonym DataRow = "(string \<times> json) list"

text \<open>JavaScript truthiness, as tested by \<open>!x\<close>, \<open>x && y\<close> and \<open>x || y\<close>.\<close>

fun truthy :: "json \<Rightarrow> bool" where
  "truthy JUndefined = False"
| "truthy JNull = False"
| "truthy (JBool b) = b"
| "truthy (JNum n) = (n \<noteq> 0)"
| "truthy (JStr s) = (s \<noteq> [])"
| "truthy (JArr xs) = True"
| "truthy (JObj kvs) = True"

text \<open>\<open>a || b\<close>\<close>

definition js_or :: "json \<Rightarrow> json \<Rightarrow> json" where
  "js_or a b = (if truthy a then a else b)"

text \<open>\<open>row.k\<close> on an object: the value, or \<open>undefined\<close> when the key is absent.\<close>

definition js_lookup :: "DataRow \<Rightarrow> string \<Rightarrow> json" where
  "js_lookup row k = (case map_of row k of None \<Rightarrow> JUndefined | Some v \<Rightarrow> v)"

text \<open>
  \<open>{ ...row, k: v }\<close>: a key already present keeps its place and takes the
  new value, a new key goes to the end.
\<close>

fun js_assign :: "string \<Rightarrow> json \<Rightarrow> DataRow \<Rightarrow> DataRow" where
  "js_assign k v [] = [(k, v)]"
| "js_assign k v (p # row) =
     (if fst p = k then (k, v) # row else p # js_assign k v row)"

text \<open>\<open>({ k, ...rest }) => rest\<close>: every property but \<open>k\<close>, in order.\<close>

definition js_omit :: "string \<Rightarrow> DataRow \<Rightarrow> DataRow" where
  "js_omit k row = filter (\<lambda>p. fst p \<noteq> k) row"

text \<open>
  \<open>data.x\<close> on a value of type \<open>any\<close>, for a property name that no string,
  number, boolean or array has of its own (\<open>type\<close>, \<open>parameters\<close>): reading it
  from \<open>null\<close> or \<open>undefined\<close> throws a TypeError (\<open>None\<close>).
\<close>

fun js_get :: "json \<Rightarrow> string \<Rightarrow> json option" where
  "js_get JUndefined k = None"
| "js_get JNull k = None"
| "js_get (JObj kvs) k = Some (js_lookup kvs k)"
| "js_get v k = Some JUndefined"

text \<open>\<open>s.trim()\<close>: white space and line terminators, as far as one byte holds them.\<close>

definition is_space :: "char \<Rightarrow> bool" where
  "is_space c = (of_char c \<in> {9, 10, 11, 12, 13, 32, 160 :: nat})"

definition trim :: "string \<Rightarrow> string" where
  "trim s = rev (dropWhile is_space (rev (dropWhile is_space s)))"

text \<open>Decimal digits of \<open>Date.now()\<close> inside a template string.\<close>

fun string_of_nat :: "nat \<Rightarrow> string" where
  "string_of_nat n =
     (if n < 10 then [''0123456789'' ! n]
      else string_of_nat (n div 10) @ [''0123456789'' ! (n mod 10)])"

declare string_of_nat.simps [simp del]

section \<open>JavaScript numbers\<close>

text \<open>
  A number of the front end is an IEEE double.  The ones met here are read from an
  integer of a JSON reply and incremented: \<open>Finite n\<close> is the double whose value is
  the integer \<open>n\<close> (both zeros are \<open>Finite 0\<close>), beside the infinities and NaN.
\<close>

datatype js_number = Finite int | PosInfinity | NegInfinity | NaN

text \<open>The number of binary digits of a natural number.\<close>

fun bit_length :: "nat \<Rightarrow> nat" where
  "bit_length n = (if n = 0 then 0 else Suc (bit_length (n div 2)))"

declare bit_length.simps [simp del]

text \<open>
  Rounding a magnitude to 53 significant bits, to nearest and ties to even: below
  \<open>2 ^ 53\<close> every integer is a double; above, the doubles are the multiples of the
  unit \<open>u\<close> in the last place.
\<close>

definition round_magnitude :: "nat \<Rightarrow> nat" where
  "round_magnitude m =
     (if m < 2 ^ 53 then m
      else
        let u = 2 ^ (bit_length m - 53);
            q = m div u;
            r = m mod u
        in (if 2 * r < u \<or> (2 * r = u \<and> even q) then q else q + 1) * u)"

text \<open>
  The double nearest to an integer, as \<open>JSON.parse\<close> reads an integer literal and
  as an exact sum is rounded; from \<open>2 ^ 1024\<close> on the result is an infinity.
\<close>

definition to_double :: "int \<Rightarrow> js_number" where
  "to_double n =
     (let m = round_magnitude (nat \<bar>n\<bar>) in
      if 2 ^ 1024 \<le> m then (if n < 0 then NegInfinity else PosInfinity)
      else Finite (if n < 0 then - int m else int m))"

text \<open>\<open>x >= 0\<close> on a number.\<close>

fun js_ge_zero :: "js_number \<Rightarrow> bool" where
  "js_ge_zero (Finite n) = (0 \<le> n)"
| "js_ge_zero PosInfinity = True"
| "js_ge_zero NegInfinity = False"
| "js_ge_zero NaN = False"

text \<open>\<open>x + 1\<close> on a number: the exact sum, rounded.\<close>

fun js_add_one :: "js_number \<Rightarrow> js_number" where
  "js_add_one (Finite n) = to_double (n + 1)"
| "js_add_one PosInfinity = PosInfinity"
| "js_add_one NegInfinity = NegInfinity"
| "js_add_one NaN = NaN"

text \<open>
  What \<open>issue.row_index\<close> can be when the report arrives as JSON: absent
  (\<open>undefined\<close>), \<open>null\<close>, or the integer written in the reply.
\<close>

datatype js_row = RowUndefined | RowNull | RowNumber int

text \<open>The number the operators \<open>>=\<close> and \<open>+\<close> make of such a value.\<close>

fun to_number :: "js_row \<Rightarrow> js_number" where
  "to_number RowUndefined = NaN"
| "to_number RowNull = Finite 0"
| "to_number (RowNumber n) = to_double n"

text \<open>
  \<open>{x >= 0 && (<span>Row: {x + 1}</span>)}\<close>: the number in the badge, \<open>None\<close>
  when the badge is not rendered.
\<close>

definition rowBadge :: "js_row \<Rightarrow> js_number option" where
  "rowBadge x = (if js_ge_zero (to_number x) then Some (js_add_one (to_number x)) else None)"

section \<open>Data model of the page (\<open>app/page\<close> in \<open>layout.tsx\<close>)\<close>

record Rule =
  rule_id :: string
  description :: json
  rule_type :: json
  parameters :: json

record Priority =
  fairness :: int
  loadBalance :: int
  priorityLevel :: int

datatype severity = Critical | Warning

record ValidationIssue =
  error_type :: string
  severity :: severity
  row_index :: int
  column :: "string option"
  message :: string
  suggested_fix :: "string option"
  cell_value :: "string option"

record SummaryExample =
  ex_column :: "string option"
  ex_row :: int
  ex_message :: string

record SummaryEntry =
  entry_count :: nat
  entry_severity :: severity
  examples :: "SummaryExample list"

record ValidationReport =
  is_valid :: bool
  total_errors :: nat
  total_warnings :: nat
  errors :: "ValidationIssue list"
  warnings :: "ValidationIssue list"
  summary :: "(string \<times> SummaryEntry) list"
  recommendations :: "string list"

text \<open>The reply of \<open>POST /upload\<close>, as far as the page reads it.\<close>

record BackendResponse =
  validation_preview :: "ValidationReport option"
  mapped_headers :: "(string \<times> string) list"
  suggestions :: "string list"

text \<open>The \<open>useState\<close> cells of \<open>Home\<close>.\<close>

record Home =
  clientsData :: "DataRow list"
  workersData :: "DataRow list"
  tasksData :: "DataRow list"
  rules :: "Rule list"
  priorities :: Priority
  validationResult :: "ValidationReport option"
  activeTab :: string
  aiInsights :: "BackendResponse option"

section \<open>Rule list maintenance (\<open>layout.tsx\<close>)\<close>

text \<open>\<open>setRules([...rules, rule])\<close>\<close>

definition handleAddRule :: "Home \<Rightarrow> Rule \<Rightarrow> Home" where
  "handleAddRule st rule = st\<lparr>rules := rules st @ [rule]\<rparr>"

text \<open>\<open>setRules(rules.filter(rule => rule.id !== ruleId))\<close>\<close>

definition handleRemoveRule :: "Home \<Rightarrow> string \<Rightarrow> Home" where
  "handleRemoveRule st ruleId =
     st\<lparr>rules := filter (\<lambda>rule. rule_id rule \<noteq> ruleId) (rules st)\<rparr>"

section \<open>The data grid (\<open>DataGrid.tsx\<close>)\<close>

text \<open>\<open>data.map((row, index) => ({ ...row, id: row.id || index }))\<close>\<close>

definition rows :: "DataRow list \<Rightarrow> DataRow list" where
  "rows data =
     map (\<lambda>(index, row).
            js_assign ''id'' (js_or (js_lookup row ''id'') (JNum (int index))) row)
         (enumerate 0 data)"

text \<open>
  \<open>newRows.map(({ id, ...rest }) => rest)\<close>; the result is what the handler
  passes to \<open>onDataUpdate\<close>.
\<close>

definition handleRowsChange :: "DataRow list \<Rightarrow> DataRow list" where
  "handleRowsChange newRows = map (js_omit ''id'') newRows"


section \<open>Requests sent to the back end\<close>

text \<open>The JSON bodies the front end posts; a request is its URL and its body.\<close>

datatype payload =
    ValidationPayload "DataRow list" "DataRow list" "DataRow list"
  | ExportPayload "DataRow list" "DataRow list" "DataRow list" "Rule list" Priority string
  | ModifyPayload string "DataRow list" "DataRow list" "DataRow list"
  | RulePayload string

datatype request = Post string payload

text \<open>
  What \<open>await fetch(...)\<close> followed by \<open>await response.json()\<close> yields:
  \<open>Rejected msg\<close> when \<open>fetch\<close> throws an Error with that message;
  otherwise the reply with \<open>response.ok\<close>, \<open>response.statusText\<close> and the
  body, \<open>Inl msg\<close> when reading the body as the expected object throws an Error
  with that message.
\<close>

datatype 'a http = Rejected string | Replied bool string "string + 'a"

text \<open>
  What \<open>await axios.post(...)\<close> yields: axios rejects on a network error and on
  a status outside 2xx, otherwise \<open>response.data\<close> is the body.
\<close>

datatype 'a axios_result = AxiosRejected | AxiosReplied 'a

section \<open>Upload and edit handlers of the page (\<open>layout.tsx\<close>)\<close>

text \<open>The reply of \<open>POST /validate/comprehensive\<close>.\<close>

record ValidationData =
  validation_result :: "ValidationReport option"

text \<open>The \<open>switch (type)\<close> over the three setters; any other type sets nothing.\<close>

definition setData :: "string \<Rightarrow> DataRow list \<Rightarrow> Home \<Rightarrow> Home" where
  "setData type data st =
     (if type = ''clients'' then st\<lparr>clientsData := data\<rparr>
      else if type = ''workers'' then st\<lparr>workersData := data\<rparr>
      else if type = ''tasks'' then st\<lparr>tasksData := data\<rparr>
      else st)"

text \<open>
  The body of the validation request: the table just received under its own
  key, the tables of the state for the other two.
\<close>

definition validationRequest :: "Home \<Rightarrow> string \<Rightarrow> DataRow list \<Rightarrow> request" where
  "validationRequest st type data =
     Post ''http://localhost:8000/validate/comprehensive''
       (ValidationPayload
          (if type = ''clients'' then data else clientsData st)
          (if type = ''workers'' then data else workersData st)
          (if type = ''tasks'' then data else tasksData st))"

text \<open>
  \<open>handleDataUpload(type, data, backendResponse?)\<close>.  \<open>st\<close> is the state of the
  render the handler was created in: the setters take effect in the returned
  state, while \<open>clientsData\<close>, \<open>workersData\<close> and \<open>tasksData\<close> read inside the handler
  are still those of \<open>st\<close>.  \<open>net\<close> answers the validation request.  The result is
  the state once the handler has finished, and the requests it sent.
\<close>

definition handleDataUpload ::
  "Home \<Rightarrow> (request \<Rightarrow> ValidationData http) \<Rightarrow> string \<Rightarrow> DataRow list
     \<Rightarrow> BackendResponse option \<Rightarrow> Home \<times> request list" where
  "handleDataUpload st net type data backendResponse =
     (let st1 = setData type data st in
      case backendResponse of
        None \<Rightarrow> (st1, [])
      | Some resp \<Rightarrow>
          let st2 = st1\<lparr>aiInsights := Some resp\<rparr>;
              st3 = (case validation_preview resp of
                       None \<Rightarrow> st2
                     | Some preview \<Rightarrow> st2\<lparr>validationResult := Some preview\<rparr>)
          in if length (clientsData st) > 0 \<or> length (workersData st) > 0
                \<or> length (tasksData st) > 0
             then
               (case net (validationRequest st type data) of
                  Replied True statusText (Inr validationData) \<Rightarrow>
                    (st3\<lparr>validationResult := validation_result validationData\<rparr>,
                     [validationRequest st type data])
                | _ \<Rightarrow> (st3, [validationRequest st type data]))
             else (st3, []))"

text \<open>\<open>handleDataUpdate(type, newData)\<close> calls \<open>handleDataUpload(type, newData)\<close>.\<close>

definition handleDataUpdate ::
  "Home \<Rightarrow> (request \<Rightarrow> ValidationData http) \<Rightarrow> string \<Rightarrow> DataRow list
     \<Rightarrow> Home \<times> request list" where
  "handleDataUpdate st net type newData = handleDataUpload st net type newData None"

text \<open>
  The grid's \<open>onDataUpdate\<close> on the Data Grid tab: \<open>setClientsData(newData)\<close>
  and its two siblings, nothing else.
\<close>

definition gridDataUpdate :: "Home \<Rightarrow> string \<Rightarrow> DataRow list \<Rightarrow> Home \<times> request list" where
  "gridDataUpdate st type newData = (setData type newData st, [])"

text \<open>\<open>handleRuleSuggestionAccept(suggestion)\<close>, \<open>now\<close> being \<open>Date.now()\<close>.\<close>

definition suggestionRule :: "DataRow \<Rightarrow> nat \<Rightarrow> Rule" where
  "suggestionRule suggestion now =
     \<lparr>rule_id = ''suggestion_'' @ string_of_nat now,
      description = js_lookup suggestion ''suggested_rule'',
      rule_type = js_lookup suggestion ''type'',
      parameters = JObj [(''source'', JStr ''ai_suggestion''),
                         (''confidence'', js_lookup suggestion ''confidence''),
                         (''category'', js_lookup suggestion ''category'')]\<rparr>"

definition handleRuleSuggestionAccept :: "Home \<Rightarrow> DataRow \<Rightarrow> nat \<Rightarrow> Home" where
  "handleRuleSuggestionAccept st suggestion now =
     st\<lparr>rules := rules st @ [suggestionRule suggestion now]\<rparr>"

section \<open>The natural-language rule input (\<open>RuleBuilder.tsx\<close>)\<close>

record RuleBuilderState =
  ruleInput :: string
  isProcessing :: bool

text \<open>The rule of the \<open>catch\<close> branch.\<close>

definition fallbackRule :: "string \<Rightarrow> nat \<Rightarrow> Rule" where
  "fallbackRule input now =
     \<lparr>rule_id = string_of_nat now,
      description = JStr input,
      rule_type = JStr ''custom'',
      parameters = JObj [(''raw_query'', JStr input)]\<rparr>"

text \<open>
  \<open>handleAddRule\<close> of the rule builder.  The result is the component's state, the
  requests sent, and the rules handed to \<open>onAddRule\<close>.  A reply whose data is
  \<open>null\<close> makes \<open>response.data.type\<close> throw, which the \<open>catch\<close> branch handles
  like a failed request.
\<close>

definition RuleBuilder_handleAddRule ::
  "RuleBuilderState \<Rightarrow> nat \<Rightarrow> json axios_result
     \<Rightarrow> RuleBuilderState \<times> request list \<times> Rule list" where
  "RuleBuilder_handleAddRule st now reply =
     (if trim (ruleInput st) = [] then (st, [], [])
      else
        let req = Post ''http://localhost:8000/rules/generate'' (RulePayload (ruleInput st));
            st' = st\<lparr>ruleInput := [], isProcessing := False\<rparr>
        in case reply of
             AxiosRejected \<Rightarrow> (st', [req], [fallbackRule (ruleInput st) now])
           | AxiosReplied d \<Rightarrow>
               (case js_get d ''type'' of
                  None \<Rightarrow> (st', [req], [fallbackRule (ruleInput st) now])
                | Some t \<Rightarrow>
                    (case js_get d ''parameters'' of
                       None \<Rightarrow> (st', [req], [fallbackRule (ruleInput st) now])
                     | Some ps \<Rightarrow>
                         (st', [req],
                          [\<lparr>rule_id = string_of_nat now,
                            description = JStr (ruleInput st),
                            rule_type = js_or t (JStr ''custom''),
                            parameters = js_or ps (JObj [])\<rparr>]))))"

text \<open>The six rule kinds as the tab ids of \<open>ruleTypes\<close> in \<open>VisualRuleBuilder.tsx\<close>.\<close>

definition ruleTypes :: "string list" where
  "ruleTypes = [''corun'', ''priority'', ''capacity'', ''skills'', ''timing'', ''exclusion'']"

text \<open>
  Modelled from the spec: the names of the fixed enum of rule kinds in the data
  model (missing: the rule parser of the back end, which emits them).
\<close>

definition kindNames :: "string list" where
  "kindNames = [''CoRun'', ''Exclusion'', ''Priority'', ''Capacity'', ''SkillMatch'', ''Timing'']"

text \<open>A type is of the fixed enum when it is one of the six kinds, in either spelling.\<close>

definition in_kind_enum :: "json \<Rightarrow> bool" where
  "in_kind_enum t = (t \<in> set (map JStr (ruleTypes @ kindNames)))"

section \<open>Natural-language modification (\<open>NLModify.tsx\<close>)\<close>

text \<open>
  The reply of \<open>POST /modify/natural-language\<close>: \<open>None\<close> is a field that is
  absent or \<open>null\<close>, for which \<open>total_changes > 0\<close> and \<open>x && x.length > 0\<close> are
  false.
\<close>

record ModifyResponse =
  total_changes :: "int option"
  modified_clients :: "DataRow list option"
  modified_workers :: "DataRow list option"
  modified_tasks :: "DataRow list option"

record NLModifyState =
  query :: string
  nl_isProcessing :: bool
  nl_result :: "ModifyResponse option"
  nl_error :: string

text \<open>\<open>x && x.length > 0\<close> guarding \<open>onDataUpdate(type, x)\<close>.\<close>

definition modified_call :: "string \<Rightarrow> DataRow list option \<Rightarrow> (string \<times> DataRow list) list" where
  "modified_call type m =
     (case m of None \<Rightarrow> [] | Some xs \<Rightarrow> if length xs > 0 then [(type, xs)] else [])"

text \<open>The calls of \<open>onDataUpdate\<close> after a parsed reply, in the order made.\<close>

definition data_updates :: "ModifyResponse \<Rightarrow> (string \<times> DataRow list) list" where
  "data_updates d =
     (if (case total_changes d of None \<Rightarrow> False | Some n \<Rightarrow> n > 0)
      then modified_call ''clients'' (modified_clients d)
           @ modified_call ''workers'' (modified_workers d)
           @ modified_call ''tasks'' (modified_tasks d)
      else [])"

text \<open>
  \<open>handleSubmit\<close>: the component's state when the handler has finished, the
  requests sent, and the calls of \<open>onDataUpdate\<close>.  Whatever throws inside
  \<open>try\<close> throws before the first call: \<open>onDataUpdate\<close> is the page's
  \<open>handleDataUpdate\<close>, which starts an async function and returns.
\<close>

definition handleSubmit ::
  "NLModifyState \<Rightarrow> DataRow list \<Rightarrow> DataRow list \<Rightarrow> DataRow list
     \<Rightarrow> ModifyResponse http
     \<Rightarrow> NLModifyState \<times> request list \<times> (string \<times> DataRow list) list" where
  "handleSubmit st clients workers tasks reply =
     (if trim (query st) = []
      then (st\<lparr>nl_error := ''Please enter a modification command''\<rparr>, [], [])
      else if length clients = 0 \<and> length workers = 0 \<and> length tasks = 0
      then (st\<lparr>nl_error := ''No data available to modify. Please upload data first.''\<rparr>,
            [], [])
      else
        let req = Post ''http://localhost:8000/modify/natural-language''
                    (ModifyPayload (query st) clients workers tasks);
            st1 = st\<lparr>nl_isProcessing := False, nl_error := [], nl_result := None\<rparr>
        in case reply of
             Rejected msg \<Rightarrow> (st1\<lparr>nl_error := msg\<rparr>, [req], [])
           | Replied ok statusText body \<Rightarrow>
               if \<not> ok
               then (st1\<lparr>nl_error := ''Failed to process modification: '' @ statusText\<rparr>,
                     [req], [])
               else (case body of
                       Inl msg \<Rightarrow> (st1\<lparr>nl_error := msg\<rparr>, [req], [])
                     | Inr d \<Rightarrow> (st1\<lparr>nl_result := Some d\<rparr>, [req], data_updates d)))"

text \<open>
  The page passes \<open>handleDataUpdate\<close> as \<open>onDataUpdate\<close>: the calls take effect
  on the page's state one after the other.
\<close>

definition applyDataUpdates ::
  "Home \<Rightarrow> (request \<Rightarrow> ValidationData http) \<Rightarrow> (string \<times> DataRow list) list \<Rightarrow> Home" where
  "applyDataUpdates st net calls =
     foldl (\<lambda>s (type, newData). fst (handleDataUpdate s net type newData)) st calls"

text \<open>
  The AI Modify tab: \<open>NLModify\<close> with the page's three tables as props and the
  page's \<open>handleDataUpdate\<close>.
\<close>

definition submitModification ::
  "Home \<Rightarrow> (request \<Rightarrow> ValidationData http) \<Rightarrow> NLModifyState \<Rightarrow> ModifyResponse http
     \<Rightarrow> Home" where
  "submitModification home net st reply =
     applyDataUpdates home net
       (snd (snd (handleSubmit st (clientsData home) (workersData home) (tasksData home) reply)))"

section \<open>The export panel (\<open>ExportPanel.tsx\<close>)\<close>

record ExportPanelProps =
  p_data :: "DataRow list"
  p_rules :: "Rule list"
  p_priorities :: Priority
  clients_data :: "DataRow list"
  workers_data :: "DataRow list"
  tasks_data :: "DataRow list"

text \<open>
  The status line: empty, then one of the three texts the full export sets
  (preparing, exported, failed).
\<close>

datatype export_status = NoStatus | Preparing | Exported | ExportFailed

record ExportPanelState =
  isExporting :: bool
  exportStatus :: export_status
  exportedFiles :: "string list"

text \<open>The props the page gives the panel on the Export tab.\<close>

definition exportPanelProps :: "Home \<Rightarrow> ExportPanelProps" where
  "exportPanelProps home =
     \<lparr>p_data = clientsData home @ workersData home @ tasksData home,
      p_rules = rules home,
      p_priorities = priorities home,
      clients_data = clientsData home,
      workers_data = workersData home,
      tasks_data = tasksData home\<rparr>"

text \<open>\<open>prepareExportData()\<close>, \<open>timestamp\<close> being \<open>new Date().toISOString()\<close>.\<close>

definition prepareExportData :: "ExportPanelProps \<Rightarrow> string \<Rightarrow> payload" where
  "prepareExportData props timestamp =
     ExportPayload (clients_data props) (workers_data props) (tasks_data props)
       (p_rules props) (p_priorities props) timestamp"

definition totalRecords :: "ExportPanelProps \<Rightarrow> nat" where
  "totalRecords props =
     length (clients_data props) + length (workers_data props) + length (tasks_data props)"

text \<open>
  \<open>handleFullExport\<close>: the panel's state when the handler has finished, the
  requests sent and the names of the files offered for download.
\<close>

definition handleFullExport ::
  "ExportPanelProps \<Rightarrow> ExportPanelState \<Rightarrow> string \<Rightarrow> nat \<Rightarrow> string axios_result
     \<Rightarrow> ExportPanelState \<times> request list \<times> string list" where
  "handleFullExport props st timestamp now reply =
     (let req = Post ''http://localhost:8000/export'' (prepareExportData props timestamp)
      in case reply of
           AxiosReplied blob \<Rightarrow>
             (st\<lparr>isExporting := False, exportStatus := Exported,
                 exportedFiles := [''clean_clients.csv'', ''clean_workers.csv'',
                   ''clean_tasks.csv'', ''rules_config.json'', ''priority_config.json'',
                   ''deployment_config.json'']\<rparr>,
              [req], [''data-alchemist-export-'' @ string_of_nat now @ ''.zip''])
         | AxiosRejected \<Rightarrow>
             (st\<lparr>isExporting := False, exportStatus := ExportFailed\<rparr>, [req], []))"

text \<open>\<open>disabled={isExporting || totalRecords === 0}\<close> on the package button.\<close>

definition fullExportDisabled :: "ExportPanelProps \<Rightarrow> ExportPanelState \<Rightarrow> bool" where
  "fullExportDisabled props st = (isExporting st \<or> totalRecords props = 0)"

text \<open>
  A click on the package button.  The panel is rendered on the Export tab only,
  and a disabled button runs no handler.
\<close>

definition clickExportPackage ::
  "Home \<Rightarrow> ExportPanelState \<Rightarrow> string \<Rightarrow> nat \<Rightarrow> string axios_result
     \<Rightarrow> ExportPanelState \<times> request list \<times> string list" where
  "clickExportPackage home st timestamp now reply =
     (if activeTab home = ''export'' \<and> \<not> fullExportDisabled (exportPanelProps home) st
      then handleFullExport (exportPanelProps home) st timestamp now reply
      else (st, [], []))"

text \<open>The requests of a click.\<close>

definition exportRequests ::
  "Home \<Rightarrow> ExportPanelState \<Rightarrow> string \<Rightarrow> nat \<Rightarrow> string axios_result \<Rightarrow> request list" where
  "exportRequests home st timestamp now reply =
     fst (snd (clickExportPackage home st timestamp now reply))"

section \<open>The validation summary (\<open>ValidationSummary\<close> component)\<close>

text \<open>\<open>s.replace('_', ' ')\<close>: the first underscore only.\<close>

fun replace_first :: "string \<Rightarrow> string" where
  "replace_first [] = []"
| "replace_first (c # s) = (if c = CHR ''_'' then CHR '' '' # s else c # replace_first s)"

text \<open>\<open>x && ...\<close> on a nullable string: shown when present and not empty.\<close>

definition shown :: "string option \<Rightarrow> string option" where
  "shown x = (case x of None \<Rightarrow> None | Some s \<Rightarrow> if s = [] then None else Some s)"

text \<open>
  One card of the error or warning list.  \<open>badge_row\<close> is the number in the
  \<open>Row:\<close> badge, \<open>None\<close> when the badge is not rendered.  The report holds
  \<open>row_index\<close> as the integer written in the reply.
\<close>

record IssueCard =
  badge_type :: string
  badge_column :: "string option"
  badge_row :: "js_number option"
  card_message :: string
  card_suggestion :: "string option"
  card_value :: "string option"
  fix_button :: bool

definition errorCard :: "ValidationIssue \<Rightarrow> IssueCard" where
  "errorCard error =
     \<lparr>badge_type = (let s = replace_first (error_type error) in if s = [] then ''Error'' else s),
      badge_column = shown (column error),
      badge_row = rowBadge (RowNumber (row_index error)),
      card_message = message error,
      card_suggestion = shown (suggested_fix error),
      card_value = cell_value error,
      fix_button = (shown (suggested_fix error) \<noteq> None)\<rparr>"

definition warningCard :: "ValidationIssue \<Rightarrow> IssueCard" where
  "warningCard warning =
     \<lparr>badge_type = (let s = replace_first (error_type warning) in
                      if s = [] then ''Warning'' else s),
      badge_column = shown (column warning),
      badge_row = rowBadge (RowNumber (row_index warning)),
      card_message = message warning,
      card_suggestion = shown (suggested_fix warning),
      card_value = None,
      fix_button = False\<rparr>"

text \<open>One line of the examples of an error type.\<close>

record ExampleLine =
  line_column :: "string option"
  line_row :: "js_number option"
  line_message :: string

definition exampleLine :: "SummaryExample \<Rightarrow> ExampleLine" where
  "exampleLine example =
     \<lparr>line_column = shown (ex_column example),
      line_row = rowBadge (RowNumber (ex_row example)),
      line_message = ex_message example\<rparr>"

record SummaryCard =
  card_title :: string
  card_critical :: bool
  card_count :: nat
  card_lines :: "ExampleLine list"

text \<open>\<open>details.examples.slice(0, 3).map(...)\<close> under \<open>details.examples.length > 0\<close>.\<close>

definition summaryCard :: "string \<times> SummaryEntry \<Rightarrow> SummaryCard" where
  "summaryCard entry =
     (case entry of (errorType, details) \<Rightarrow>
        \<lparr>card_title = replace_first errorType,
         card_critical = (entry_severity details = Critical),
         card_count = entry_count details,
         card_lines = (if length (examples details) > 0
                       then map exampleLine (take 3 (examples details)) else [])\<rparr>)"

record SummaryView =
  status_valid :: bool
  shown_errors :: nat
  shown_warnings :: nat
  shown_total :: nat
  error_cards :: "IssueCard list"
  warning_cards :: "IssueCard list"
  summary_cards :: "SummaryCard list"
  shown_recommendations :: "string list"

text \<open>The component; \<open>None\<close> is the placeholder shown without a validation result.\<close>

definition ValidationSummary :: "ValidationReport option \<Rightarrow> SummaryView option" where
  "ValidationSummary result =
     (case result of
        None \<Rightarrow> None
      | Some r \<Rightarrow>
          Some \<lparr>status_valid = is_valid r,
                shown_errors = total_errors r,
                shown_warnings = total_warnings r,
                shown_total = length (errors r) + length (warnings r),
                error_cards = map errorCard (errors r),
                warning_cards = map warningCard (warnings r),
                summary_cards = map summaryCard (summary r),
                shown_recommendations = recommendations r\<rparr>)"

section \<open>The diagnostic reporter\<close>

text \<open>
  The validation engine runs in the back end (\<open>backend/validators/engine.py\<close>),
  which is not among the sources; the front end only receives its report.  Its
  last stage, the Diagnostic Reporter of section 4.6 of the specification, is
  modelled here from the specification's words.
\<close>

text \<open>
  Modelled from the spec: the key of an exact duplicate in the Diagnostic Reporter
  (missing: the back-end validation engine) -- same error_type, row_index, column
  and message.
\<close>

definition issue_key :: "ValidationIssue \<Rightarrow> string \<times> int \<times> string option \<times> string" where
  "issue_key i = (error_type i, row_index i, column i, message i)"

text \<open>
  Modelled from the spec: deduplication of exact duplicates in the Diagnostic
  Reporter (missing: the back-end validation engine); the first of equal issues
  is kept.
\<close>

fun dedup :: "(string \<times> int \<times> string option \<times> string) list \<Rightarrow> ValidationIssue list
                \<Rightarrow> ValidationIssue list" where
  "dedup seen [] = []"
| "dedup seen (i # issues) =
     (if issue_key i \<in> set seen then dedup seen issues
      else i # dedup (issue_key i # seen) issues)"

text \<open>
  Modelled from the spec: an example of the summary map (missing: the back-end
  validation engine) -- column, row and message of an issue.
\<close>

definition example_of :: "ValidationIssue \<Rightarrow> SummaryExample" where
  "example_of i = \<lparr>ex_column = column i, ex_row = row_index i, ex_message = message i\<rparr>"

text \<open>
  Modelled from the spec: one entry of the summary map (missing: the back-end
  validation engine) -- count, severity and the first 3 examples of an
  error_type.  The severity of an entry is taken from the first issue of its
  type.
\<close>

definition summary_entry :: "ValidationIssue list \<Rightarrow> string \<Rightarrow> string \<times> SummaryEntry" where
  "summary_entry issues t =
     (let group = filter (\<lambda>i. error_type i = t) issues in
      (t, \<lparr>entry_count = length group,
           entry_severity = (case group of [] \<Rightarrow> Warning | i # _ \<Rightarrow> severity i),
           examples = map example_of (take 3 group)\<rparr>))"

text \<open>
  Modelled from the spec: the summary map of the Diagnostic Reporter (missing: the
  back-end validation engine), one entry per error_type present.
\<close>

definition summarise :: "ValidationIssue list \<Rightarrow> (string \<times> SummaryEntry) list" where
  "summarise issues = map (summary_entry issues) (remdups (map error_type issues))"

text \<open>
  Modelled from the spec: the Diagnostic Reporter (missing: the back-end validation
  engine).  It merges the issue streams, drops exact duplicates, sorts by
  (row_index, column), so that dataset- and rule-level issues (row_index = -1)
  come first, counts errors and warnings, sets is_valid and builds the summary.
  How recommendations are worded is left to \<open>recommend\<close>.
\<close>

definition build_report ::
  "((string \<times> SummaryEntry) list \<Rightarrow> string list) \<Rightarrow> ValidationIssue list list
     \<Rightarrow> ValidationReport" where
  "build_report recommend streams =
     (let issues = sort_key (\<lambda>i. (row_index i, column i)) (dedup [] (concat streams));
          errs = filter (\<lambda>i. severity i = Critical) issues;
          warns = filter (\<lambda>i. severity i = Warning) issues;
          s = summarise issues
      in \<lparr>is_valid = (length errs = 0),
          total_errors = length errs,
          total_warnings = length warns,
          errors = errs,
          warnings = warns,
          summary = s,
          recommendations = recommend s\<rparr>)"

section \<open>Where an issue gets its row index\<close>

text \<open>
  Modelled from the spec: what a validator of the engine finds, before the issue is
  given its place (missing: the back-end validation engine) -- the fields of a
  ValidationIssue other than row_index.
\<close>

record Finding =
  f_error_type :: string
  f_severity :: severity
  f_column :: "string option"
  f_message :: string
  f_suggested_fix :: "string option"
  f_cell_value :: "string option"

text \<open>
  Modelled from the spec: the ValidationIssue of a finding at a given row_index
  (missing: the back-end validation engine).
\<close>

definition issue_at :: "int \<Rightarrow> Finding \<Rightarrow> ValidationIssue" where
  "issue_at row f =
     \<lparr>error_type = f_error_type f, severity = f_severity f, row_index = row,
      column = f_column f, message = f_message f,
      suggested_fix = f_suggested_fix f, cell_value = f_cell_value f\<rparr>"

text \<open>
  Modelled from the spec: the three kinds of entity (missing: the back-end validation
  engine) -- clients, workers and tasks.
\<close>

datatype entity = Clients | Workers | Tasks

text \<open>
  Modelled from the spec: the snapshot of one validation pass (missing: the back-end
  validation engine) -- the three entity tables, each an ordered sequence of
  records, and the rules.
\<close>

record Snapshot =
  s_clients :: "DataRow list"
  s_workers :: "DataRow list"
  s_tasks :: "DataRow list"
  s_rules :: "Rule list"

text \<open>
  Modelled from the spec: the table of an entity within a snapshot (missing: the
  back-end validation engine).
\<close>

fun entity_table :: "Snapshot \<Rightarrow> entity \<Rightarrow> DataRow list" where
  "entity_table snap Clients = s_clients snap"
| "entity_table snap Workers = s_workers snap"
| "entity_table snap Tasks = s_tasks snap"

text \<open>
  Modelled from the spec: the issues about the records of one entity table (missing:
  the back-end validation engine).  A finding about a record becomes an issue whose
  row_index is the 0-based position of that record within its entity table;
  \<open>record_checks snap e k\<close> are the findings of the validators about record \<open>k\<close> of
  the table of \<open>e\<close>, which may consult the whole snapshot.
\<close>

definition record_issues ::
  "(Snapshot \<Rightarrow> entity \<Rightarrow> nat \<Rightarrow> Finding list) \<Rightarrow> Snapshot \<Rightarrow> entity \<Rightarrow> ValidationIssue list" where
  "record_issues record_checks snap e =
     concat (map (\<lambda>k. map (issue_at (int k)) (record_checks snap e k))
               [0 ..< length (entity_table snap e)])"

text \<open>
  Modelled from the spec: the dataset- and rule-level issues (missing: the back-end
  validation engine) -- a finding about a whole dataset or about a rule becomes an
  issue with row_index = -1.
\<close>

definition dataset_issues :: "(Snapshot \<Rightarrow> Finding list) \<Rightarrow> Snapshot \<Rightarrow> ValidationIssue list" where
  "dataset_issues dataset_checks snap = map (issue_at (- 1)) (dataset_checks snap)"

text \<open>
  Modelled from the spec: one validation pass (missing: the back-end validation
  engine).  The issue streams of the validators converge in the Diagnostic Reporter;
  an issue is either about a record of one of the three tables or about a dataset or
  a rule.  Which defects the validators look for is left to \<open>record_checks\<close> and
  \<open>dataset_checks\<close>.
\<close>

definition validate ::
  "((string \<times> SummaryEntry) list \<Rightarrow> string list)
     \<Rightarrow> (Snapshot \<Rightarrow> entity \<Rightarrow> nat \<Rightarrow> Finding list) \<Rightarrow> (Snapshot \<Rightarrow> Finding list)
     \<Rightarrow> Snapshot \<Rightarrow> ValidationReport" where
  "validate recommend record_checks dataset_checks snap =
     build_report recommend
       [record_issues record_checks snap Clients,
        record_issues record_checks snap Workers,
        record_issues record_checks snap Tasks,
        dataset_issues dataset_checks snap]"

section \<open>The visual rule builder (\<open>VisualRuleBuilder.tsx\<close>)\<close>

record VRule =
  v_id :: string
  v_type :: string
  v_name :: json
  v_parameters :: DataRow
  isActive :: bool

record VisualRuleBuilderState =
  vb_activeTab :: string
  currentRule :: DataRow
  jsonPreview :: string

text \<open>The initial state: the first tab, an empty form.\<close>

definition initialBuilder :: VisualRuleBuilderState where
  "initialBuilder = \<lparr>vb_activeTab = ''corun'', currentRule = [], jsonPreview = []\<rparr>"

text \<open>A click on a rule-kind tab.\<close>

definition selectTab :: "VisualRuleBuilderState \<Rightarrow> string \<Rightarrow> VisualRuleBuilderState" where
  "selectTab st tab = st\<lparr>vb_activeTab := tab, currentRule := [], jsonPreview := []\<rparr>"

text \<open>
  \<open>handleRuleChange(field, value)\<close>; \<open>stringify\<close> is \<open>JSON.stringify(_, null, 2)\<close>.
\<close>

definition handleRuleChange ::
  "(json \<Rightarrow> string) \<Rightarrow> VisualRuleBuilderState \<Rightarrow> string \<Rightarrow> json \<Rightarrow> VisualRuleBuilderState" where
  "handleRuleChange stringify st field v =
     (let updatedRule = js_assign field v (currentRule st);
          preview = JObj
            [(''type'', JStr (vb_activeTab st)),
             (''name'', js_or (js_lookup updatedRule ''name'')
                          (JStr (vb_activeTab st @ ''_rule''))),
             (''parameters'', JObj updatedRule),
             (''enforcement'', js_or (js_lookup updatedRule ''enforcement'') (JStr ''strict'')),
             (''priority'', js_or (js_lookup updatedRule ''priority'') (JStr ''medium''))]
      in st\<lparr>currentRule := updatedRule, jsonPreview := stringify preview\<rparr>)"

text \<open>
  \<open>createRule\<close>, \<open>now\<close> being \<open>Date.now()\<close>: the state afterwards, the rules handed
  to \<open>onAddRule\<close> and the alerts shown.
\<close>

definition createRule ::
  "VisualRuleBuilderState \<Rightarrow> nat \<Rightarrow> VisualRuleBuilderState \<times> VRule list \<times> string list" where
  "createRule st now =
     (if \<not> truthy (js_lookup (currentRule st) ''name'')
      then (st, [], [''Please provide a rule name''])
      else (st\<lparr>currentRule := [], jsonPreview := []\<rparr>,
            [\<lparr>v_id = ''rule_'' @ string_of_nat now,
              v_type = vb_activeTab st,
              v_name = js_lookup (currentRule st) ''name'',
              v_parameters = currentRule st,
              isActive = True\<rparr>],
            []))"

section \<open>Sample inputs\<close>

definition duplicateIssue :: ValidationIssue where
  "duplicateIssue =
     \<lparr>error_type = ''duplicate_id'', severity = Critical, row_index = 1,
      column = Some ''WorkerID'', message = ''Duplicate WorkerID: W1'',
      suggested_fix = Some ''Rename to W1_2'', cell_value = Some ''W1''\<rparr>"

definition saturationWarning :: ValidationIssue where
  "saturationWarning =
     \<lparr>error_type = ''phase_saturation'', severity = Warning, row_index = -1,
      column = None, message = ''Phase 1: demand 3 for Design exceeds supply 2'',
      suggested_fix = None, cell_value = None\<rparr>"

definition coverageWarning :: ValidationIssue where
  "coverageWarning =
     \<lparr>error_type = ''partial_skill_coverage'', severity = Warning, row_index = 0,
      column = Some ''RequiredSkills'', message = ''No single worker holds all skills of T1'',
      suggested_fix = None, cell_value = None\<rparr>"

text \<open>A report with two errors, one warning and five examples of one error type.\<close>

definition sampleReport :: ValidationReport where
  "sampleReport =
     \<lparr>is_valid = False, total_errors = 2, total_warnings = 1,
      errors = [duplicateIssue, duplicateIssue\<lparr>row_index := -1\<rparr>],
      warnings = [saturationWarning],
      summary = [(''duplicate_id'',
                  \<lparr>entry_count = 5, entry_severity = Critical,
                   examples = map (\<lambda>n. \<lparr>ex_column = Some ''WorkerID'', ex_row = n,
                                          ex_message = ''Duplicate WorkerID''\<rparr>)
                                [1, 2, 3, 4, 5]\<rparr>)],
      recommendations = []\<rparr>"

text \<open>The page before any upload.\<close>

definition emptyHome :: Home where
  "emptyHome =
     \<lparr>clientsData = [], workersData = [], tasksData = [], rules = [],
      priorities = \<lparr>fairness = 50, loadBalance = 50, priorityLevel = 50\<rparr>,
      validationResult = None, activeTab = ''upload'', aiInsights = None\<rparr>"

text \<open>The page on the Export tab, with two clients and a report that is not valid.\<close>

definition sampleHome :: Home where
  "sampleHome =
     \<lparr>clientsData = [[(''ClientID'', JStr ''C1'')], [(''ClientID'', JStr ''C1'')]],
      workersData = [], tasksData = [], rules = [],
      priorities = \<lparr>fairness = 50, loadBalance = 50, priorityLevel = 50\<rparr>,
      validationResult = Some sampleReport,
      activeTab = ''export'',
      aiInsights = None\<rparr>"

definition idlePanel :: ExportPanelState where
  "idlePanel = \<lparr>isExporting = False, exportStatus = NoStatus, exportedFiles = []\<rparr>"

definition sampleUpload :: BackendResponse where
  "sampleUpload = \<lparr>validation_preview = None, mapped_headers = [], suggestions = []\<rparr>"

definition sampleModification :: ModifyResponse where
  "sampleModification =
     \<lparr>total_changes = Some 1,
      modified_clients = Some [[(''ClientID'', JStr ''C1''), (''Budget'', JNum 75000)]],
      modified_workers = Some [],
      modified_tasks = None\<rparr>"

definition sampleQuery :: NLModifyState where
  "sampleQuery =
     \<lparr>query = ''Update client C1 budget to 75000'', nl_isProcessing = False,
      nl_result = None, nl_error = []\<rparr>"




definition namedForm :: VisualRuleBuilderState where
  "namedForm =
     \<lparr>vb_activeTab = ''capacity'',
      currentRule = [(''name'', JStr ''Max three tasks''), (''maxTasks'', JNum 3)],
      jsonPreview = []\<rparr>"

section \<open>Facts about objects and lists\<close>

lemma js_omit_assign: "js_omit k (js_assign k v row) = js_omit k row"
  by (induction row) (auto simp: js_omit_def)

lemma js_omit_fresh: "k \<notin> fst ` set row \<Longrightarrow> js_omit k row = row"
  by (induction row) (auto simp: js_omit_def)

lemma js_lookup_assign_same: "js_lookup (js_assign k v row) k = v"
  by (induction row) (auto simp: js_lookup_def)

lemma map_of_js_omit_same: "map_of (js_omit k row) k = None"
  by (induction row) (auto simp: js_omit_def)

lemma map_of_js_omit_other: "k' \<noteq> k \<Longrightarrow> map_of (js_omit k row) k' = map_of row k'"
  by (induction row) (auto simp: js_omit_def)

lemma js_get_None: "js_get d k = None \<longleftrightarrow> d = JUndefined \<or> d = JNull"
  by (cases d) simp_all

section \<open>Facts about JavaScript numbers\<close>


lemma round_magnitude_safe: "m < 2 ^ 53 \<Longrightarrow> round_magnitude m = m"
  by (simp add: round_magnitude_def)


lemma to_double_safe:
  assumes "\<bar>n\<bar> < 2 ^ 53"
  shows "to_double n = Finite n"
proof -
  from assms have small: "nat \<bar>n\<bar> < 2 ^ 53"
    by (simp add: nat_less_iff)
  have "(2::nat) ^ 53 \<le> 2 ^ 1024"
    by (rule power_increasing) simp_all
  with small have "\<not> 2 ^ 1024 \<le> nat \<bar>n\<bar>" by linarith
  with small show ?thesis
    by (simp add: to_double_def round_magnitude_safe Let_def)
qed




text \<open>Up to \<open>2 ^ 53 - 2\<close> the badge of an index is the index plus one.\<close>

lemma rowBadge_index:
  assumes "0 \<le> n" and "n < 2 ^ 53 - 1"
  shows "rowBadge (RowNumber n) = Some (Finite (n + 1))"
proof -
  from assms have "to_double n = Finite n" "to_double (n + 1) = Finite (n + 1)"
    by (simp_all add: to_double_safe)
  with assms show ?thesis
    by (simp add: rowBadge_def)
qed

text \<open>On \<open>null\<close> the badge reads 1; on an absent value there is none.\<close>

lemma rowBadge_null_undefined:
  "rowBadge RowNull = Some (Finite 1) \<and> rowBadge RowUndefined = None"
  by (simp add: rowBadge_def to_double_safe)

lemma bit_length_54:
  "bit_length 9007199254740992 = 54 \<and> bit_length 9007199254740993 = 54"
  by (simp add: bit_length.simps)

text \<open>Beyond the integers a double holds exactly, the sum is rounded: at \<open>2 ^ 53\<close> the badge repeats the index.\<close>

lemma rowBadge_beyond_safe_range:
  "rowBadge (RowNumber (2 ^ 53)) = Some (Finite (2 ^ 53))"
proof -
  have parse: "to_double (2 ^ 53) = Finite (2 ^ 53)"
    by (simp add: to_double_def round_magnitude_def bit_length_54 Let_def)
  have sum: "to_double (2 ^ 53 + 1) = Finite (2 ^ 53)"
    by (simp add: to_double_def round_magnitude_def bit_length_54 Let_def)
  from parse sum show ?thesis
    by (simp add: rowBadge_def)
qed

section \<open>Export and validation\<close>

text \<open>
  C1, as the code has it.  The export panel never sees the validation result:
  a click on the package button sends \<open>POST /export\<close> with the tables, the rules
  and the priorities exactly when the Export tab is shown, no export is running
  and at least one record is loaded, whatever \<open>validationResult\<close> holds.  The
  requests of a click are the same for every value of \<open>validationResult\<close>.
\<close>

theorem export_ignores_validation:
  "exportRequests (home\<lparr>validationResult := v\<rparr>) st timestamp now reply
     = exportRequests home st timestamp now reply
   \<and> exportRequests home st timestamp now reply
     = (if activeTab home = ''export'' \<and> \<not> isExporting st
           \<and> 0 < length (clientsData home) + length (workersData home) + length (tasksData home)
        then [Post ''http://localhost:8000/export''
                (ExportPayload (clientsData home) (workersData home) (tasksData home)
                   (rules home) (priorities home) timestamp)]
        else [])"
  by (cases reply)
     (auto simp: exportRequests_def clickExportPackage_def fullExportDisabled_def
       exportPanelProps_def totalRecords_def handleFullExport_def prepareExportData_def)

text \<open>
  C1 as stated (no export while \<open>is_valid\<close> is false) fails: on the sample page
  the current report has \<open>is_valid = False\<close>, and the click sends the export
  request all the same.
\<close>

theorem export_gate_counterexample:
  "map_option is_valid (validationResult sampleHome) = Some False
   \<and> exportRequests sampleHome idlePanel ''2025-01-01T00:00:00.000Z'' 0 (AxiosReplied ''zip'')
       = [Post ''http://localhost:8000/export''
            (ExportPayload [[(''ClientID'', JStr ''C1'')], [(''ClientID'', JStr ''C1'')]] [] [] []
               \<lparr>fairness = 50, loadBalance = 50, priorityLevel = 50\<rparr>
               ''2025-01-01T00:00:00.000Z'')]"
  by (simp add: sampleHome_def sampleReport_def idlePanel_def exportRequests_def
      clickExportPackage_def fullExportDisabled_def exportPanelProps_def totalRecords_def
      handleFullExport_def prepareExportData_def)

section \<open>Validation after an upload or an edit\<close>

lemma snd_validation_reply:
  "snd (case r of
          Replied True statusText (Inr validationData) \<Rightarrow> (f validationData, reqs)
        | _ \<Rightarrow> (g, reqs)) = reqs"
  by (simp split: http.split sum.split bool.split)

text \<open>
  An upload with a back-end response, on a page that already held a table,
  sends one validation request: the new table under its own key, the page's
  tables for the other two.
\<close>

lemma upload_validates_when_loaded:
  assumes "clientsData st \<noteq> [] \<or> workersData st \<noteq> [] \<or> tasksData st \<noteq> []"
  shows "snd (handleDataUpload st net type data (Some resp))
     = [Post ''http://localhost:8000/validate/comprehensive''
          (ValidationPayload
             (if type = ''clients'' then data else clientsData st)
             (if type = ''workers'' then data else workersData st)
             (if type = ''tasks'' then data else tasksData st))]"
proof -
  from assms have loaded:
    "0 < length (clientsData st) \<or> 0 < length (workersData st) \<or> 0 < length (tasksData st)"
    by auto
  have "snd (handleDataUpload st net type data (Some resp)) = [validationRequest st type data]"
    unfolding handleDataUpload_def Let_def option.case if_P [OF loaded]
    by (rule snd_validation_reply)
  then show ?thesis
    by (simp only: validationRequest_def)
qed

text \<open>On a page whose three tables are empty, no upload sends a validation request.\<close>

lemma upload_on_empty_page_sends_nothing:
  "clientsData st = [] \<Longrightarrow> workersData st = [] \<Longrightarrow> tasksData st = [] \<Longrightarrow>
   snd (handleDataUpload st net type data backendResponse) = []"
  by (auto simp: handleDataUpload_def Let_def split: option.splits)

text \<open>An edit through \<open>handleDataUpdate\<close> sets the table and sends nothing.\<close>

lemma handleDataUpdate_sends_nothing:
  "snd (handleDataUpdate st net type newData) = []"
  by (simp add: handleDataUpdate_def handleDataUpload_def)

lemma handleDataUpdate_state:
  "fst (handleDataUpdate st net type newData) = setData type newData st"
  by (simp add: handleDataUpdate_def handleDataUpload_def)

text \<open>
  C2 on the code.  The claim asks for a validation request after every upload
  and edit, the first upload included.  The first upload of clients, on the
  page before any upload, stores the table and sends no request; an edit of
  clients through \<open>handleDataUpdate\<close> on a loaded page stores the table and
  sends no request either.
\<close>

theorem first_upload_and_edit_skip_validation:
  "snd (handleDataUpload emptyHome (\<lambda>req. Rejected []) ''clients''
          [[(''ClientID'', JStr ''C1'')]] (Some sampleUpload)) = []
   \<and> clientsData (fst (handleDataUpload emptyHome (\<lambda>req. Rejected []) ''clients''
          [[(''ClientID'', JStr ''C1'')]] (Some sampleUpload))) = [[(''ClientID'', JStr ''C1'')]]
   \<and> snd (handleDataUpdate sampleHome (\<lambda>req. Rejected []) ''clients''
          [[(''ClientID'', JStr ''C2'')]]) = []
   \<and> clientsData (fst (handleDataUpdate sampleHome (\<lambda>req. Rejected []) ''clients''
          [[(''ClientID'', JStr ''C2'')]])) = [[(''ClientID'', JStr ''C2'')]]"
  by (simp add: handleDataUpload_def handleDataUpdate_def emptyHome_def sampleHome_def
      sampleUpload_def setData_def)

section \<open>The type of an added rule\<close>

lemma nl_rule_type_replied:
  assumes "trim (ruleInput st) \<noteq> []"
  shows "map rule_type (snd (snd (RuleBuilder_handleAddRule st now (AxiosReplied d))))
     = [case js_get d ''type'' of
          None \<Rightarrow> JStr ''custom''
        | Some t \<Rightarrow> if truthy t then t else JStr ''custom'']"
proof (cases "d = JUndefined \<or> d = JNull")
  case True
  with assms show ?thesis
    by (auto simp: RuleBuilder_handleAddRule_def fallbackRule_def)
next
  case False
  then obtain t ps where "js_get d ''type'' = Some t" "js_get d ''parameters'' = Some ps"
    by (metis js_get_None not_Some_eq)
  with assms show ?thesis
    by (simp add: RuleBuilder_handleAddRule_def js_or_def)
qed

text \<open>
  C3, as the code has it.  The natural-language path adds no rule for a blank
  input and otherwise exactly one, whose type is the parser's reported type when
  that is truthy and the literal \<open>custom\<close> in every other case: a reply without
  a type, a reply whose data is null, and the error fallback.  Accepting an AI
  suggestion appends one rule whose type is the suggestion's \<open>type\<close> as it came.
  No path compares the type with the six kinds.
\<close>

theorem added_rule_types:
  "map rule_type (snd (snd (RuleBuilder_handleAddRule st now reply)))
     = (if trim (ruleInput st) = [] then []
        else [case reply of
                AxiosRejected \<Rightarrow> JStr ''custom''
              | AxiosReplied d \<Rightarrow>
                  (case js_get d ''type'' of
                     None \<Rightarrow> JStr ''custom''
                   | Some t \<Rightarrow> if truthy t then t else JStr ''custom'')])
   \<and> rules (handleRuleSuggestionAccept home suggestion now)
     = rules home @ [suggestionRule suggestion now]
   \<and> rule_type (suggestionRule suggestion now) = js_lookup suggestion ''type''"
proof (intro conjI)
  show "map rule_type (snd (snd (RuleBuilder_handleAddRule st now reply)))
     = (if trim (ruleInput st) = [] then []
        else [case reply of
                AxiosRejected \<Rightarrow> JStr ''custom''
              | AxiosReplied d \<Rightarrow>
                  (case js_get d ''type'' of
                     None \<Rightarrow> JStr ''custom''
                   | Some t \<Rightarrow> if truthy t then t else JStr ''custom'')])"
  proof (cases "trim (ruleInput st) = []")
    case True
    then show ?thesis by (simp add: RuleBuilder_handleAddRule_def)
  next
    case False
    then show ?thesis
    proof (cases reply)
      case AxiosRejected
      with False show ?thesis
        by (simp add: RuleBuilder_handleAddRule_def fallbackRule_def)
    next
      case (AxiosReplied d)
      with False show ?thesis
        by (simp add: nl_rule_type_replied)
    qed
  qed
next
  show "rules (handleRuleSuggestionAccept home suggestion now)
     = rules home @ [suggestionRule suggestion now]"
    by (simp add: handleRuleSuggestionAccept_def)
next
  show "rule_type (suggestionRule suggestion now) = js_lookup suggestion ''type''"
    by (simp add: suggestionRule_def)
qed

text \<open>
  C3 as stated (every added rule has one of the six kinds) fails: when the
  request to the rule parser fails, the rule added has type \<open>custom\<close>, which is
  none of the six kinds in either spelling.
\<close>

theorem rule_kind_counterexample:
  "map rule_type (snd (snd (RuleBuilder_handleAddRule
       \<lparr>ruleInput = ''T1 and T2 must co-run'', isProcessing = False\<rparr> 0 AxiosRejected)))
     = [JStr ''custom'']
   \<and> \<not> in_kind_enum (JStr ''custom'')"
  by (simp add: RuleBuilder_handleAddRule_def fallbackRule_def trim_def is_space_def
      in_kind_enum_def ruleTypes_def kindNames_def)

section \<open>The report: validity and summary\<close>

lemma set_dedup_subset: "set (dedup seen issues) \<subseteq> set issues"
  by (induction issues arbitrary: seen) auto

lemma set_dedup_append_upper:
  "set (dedup seen (xs @ ys)) \<subseteq> set (dedup seen xs) \<union> set ys"
  by (induction xs arbitrary: seen) (auto dest: subsetD [OF set_dedup_subset])

lemma set_dedup_append_lower:
  "set (dedup seen xs) \<subseteq> set (dedup seen (xs @ ys))"
  by (induction xs arbitrary: seen) auto

lemma is_valid_build_report:
  "is_valid (build_report recommend streams)
     = (\<forall>i \<in> set (dedup [] (concat streams)). severity i \<noteq> Critical)"
  by (simp add: build_report_def Let_def filter_empty_conv)

lemma errors_build_report:
  "set (errors (build_report recommend streams))
     = {i \<in> set (dedup [] (concat streams)). severity i = Critical}"
  by (auto simp: build_report_def Let_def)

lemma warnings_build_report:
  "set (warnings (build_report recommend streams))
     = {i \<in> set (dedup [] (concat streams)). severity i = Warning}"
  by (auto simp: build_report_def Let_def)


text \<open>
  C4.  In the report the reporter builds, \<open>is_valid\<close> holds if and only if none
  of the issues the report contains is critical, which is when \<open>total_errors\<close> is
  0.  Warnings never make it false: a report built from issues none of which is
  critical is valid, however many warnings there are, and a further stream of
  warnings leaves \<open>is_valid\<close> as it was.
\<close>

theorem is_valid_iff_no_critical:
  "(is_valid (build_report recommend streams)
      \<longleftrightarrow> (\<forall>i \<in> set (errors (build_report recommend streams))
                  \<union> set (warnings (build_report recommend streams)).
             severity i \<noteq> Critical))
   \<and> (is_valid (build_report recommend streams)
      \<longleftrightarrow> total_errors (build_report recommend streams) = 0)
   \<and> ((\<forall>i \<in> set (concat streams). severity i \<noteq> Critical)
      \<longrightarrow> is_valid (build_report recommend streams))
   \<and> ((\<forall>w \<in> set ws. severity w = Warning)
      \<longrightarrow> is_valid (build_report recommend (streams @ [ws]))
          = is_valid (build_report recommend streams))"
proof -
  have contained: "is_valid (build_report recommend streams)
      \<longleftrightarrow> (\<forall>i \<in> set (errors (build_report recommend streams))
                  \<union> set (warnings (build_report recommend streams)).
             severity i \<noteq> Critical)"
    unfolding is_valid_build_report errors_build_report warnings_build_report
    by blast
  have counted: "is_valid (build_report recommend streams)
      \<longleftrightarrow> total_errors (build_report recommend streams) = 0"
    by (simp add: build_report_def Let_def)
  have clean: "(\<forall>i \<in> set (concat streams). severity i \<noteq> Critical)
      \<longrightarrow> is_valid (build_report recommend streams)"
    unfolding is_valid_build_report
    using set_dedup_subset [of "[]" "concat streams"] by blast
  have more_warnings: "(\<forall>w \<in> set ws. severity w = Warning)
      \<longrightarrow> is_valid (build_report recommend (streams @ [ws]))
          = is_valid (build_report recommend streams)"
  proof
    assume ws: "\<forall>w \<in> set ws. severity w = Warning"
    then have harmless: "w \<in> set ws \<Longrightarrow> severity w \<noteq> Critical" for w
      by auto
    have upper: "i \<in> set (dedup [] (concat streams @ ws))
        \<Longrightarrow> i \<in> set (dedup [] (concat streams)) \<or> i \<in> set ws" for i
      using set_dedup_append_upper [of "[]" "concat streams" ws] by blast
    have lower: "i \<in> set (dedup [] (concat streams))
        \<Longrightarrow> i \<in> set (dedup [] (concat streams @ ws))" for i
      using set_dedup_append_lower [of "[]" "concat streams" ws] by blast
    have "(\<forall>i \<in> set (dedup [] (concat streams @ ws)). severity i \<noteq> Critical)
          = (\<forall>i \<in> set (dedup [] (concat streams)). severity i \<noteq> Critical)"
      using harmless upper lower by blast
    then show "is_valid (build_report recommend (streams @ [ws]))
          = is_valid (build_report recommend streams)"
      by (simp add: is_valid_build_report)
  qed
  show ?thesis
    by (rule conjI [OF contained conjI [OF counted conjI [OF clean more_warnings]]])
qed

text \<open>
  Two streams of warnings give a valid report; two warnings added to a stream
  with a critical issue leave the report as invalid as it was.
\<close>

theorem is_valid_iff_no_critical_witness:
  "list_all (\<lambda>i. severity i \<noteq> Critical) (concat [[coverageWarning], [saturationWarning]])
   \<and> is_valid (build_report (\<lambda>s. []) [[coverageWarning], [saturationWarning]])
   \<and> list_all (\<lambda>w. severity w = Warning) [saturationWarning, coverageWarning]
   \<and> is_valid (build_report (\<lambda>s. []) ([[duplicateIssue]] @ [[saturationWarning, coverageWarning]]))
      = is_valid (build_report (\<lambda>s. []) [[duplicateIssue]])"
proof -
  have only_warnings:
    "\<forall>i \<in> set (concat [[coverageWarning], [saturationWarning]]). severity i \<noteq> Critical"
    by (simp add: saturationWarning_def coverageWarning_def)
  have warnings: "\<forall>w \<in> set [saturationWarning, coverageWarning]. severity w = Warning"
    by (simp add: saturationWarning_def coverageWarning_def)
  from only_warnings
    is_valid_iff_no_critical [of "\<lambda>s. []" "[[coverageWarning], [saturationWarning]]" "[]"]
  have valid: "is_valid (build_report (\<lambda>s. []) [[coverageWarning], [saturationWarning]])"
    by blast
  from warnings
    is_valid_iff_no_critical [of "\<lambda>s. []" "[[duplicateIssue]]" "[saturationWarning, coverageWarning]"]
  have same: "is_valid (build_report (\<lambda>s. []) ([[duplicateIssue]] @ [[saturationWarning, coverageWarning]]))
      = is_valid (build_report (\<lambda>s. []) [[duplicateIssue]])"
    by blast
  from only_warnings warnings valid same show ?thesis
    by (simp only: list_all_iff simp_thms)
qed

section \<open>The validation summary\<close>










lemma summarise_examples:
  "e \<in> set (summarise issues) \<Longrightarrow> length (examples (snd e)) \<le> 3"
  by (auto simp: summarise_def summary_entry_def Let_def)

text \<open>
  C6.  Every entry of the summary map the reporter builds holds at most 3
  examples, and the summary view shows, for each error type, the first 3 of the
  examples it was given (all of them when there are fewer), never more than 3.
\<close>

theorem at_most_three_examples:
  "(\<forall>e \<in> set (summary (build_report recommend streams)). length (examples (snd e)) \<le> 3)
   \<and> (ValidationSummary (Some r) = Some view \<longrightarrow>
        length (summary_cards view) = length (summary r)
        \<and> (\<forall>k < length (summary r).
              card_lines (summary_cards view ! k)
                = map exampleLine (take 3 (examples (snd (summary r ! k))))
              \<and> length (card_lines (summary_cards view ! k)) \<le> 3))"
proof (intro conjI impI ballI)
  fix e assume "e \<in> set (summary (build_report recommend streams))"
  then show "length (examples (snd e)) \<le> 3"
    by (simp add: build_report_def Let_def summarise_examples)
next
  assume view: "ValidationSummary (Some r) = Some view"
  then show "length (summary_cards view) = length (summary r)"
    by (auto simp: ValidationSummary_def)
  show "\<forall>k < length (summary r).
              card_lines (summary_cards view ! k)
                = map exampleLine (take 3 (examples (snd (summary r ! k))))
              \<and> length (card_lines (summary_cards view ! k)) \<le> 3"
    using view
    by (auto simp: ValidationSummary_def summaryCard_def split: prod.splits)
qed

text \<open>
  Four duplicate-id issues give a summary entry within the bound, and of the
  five examples of the sample report the view shows the first three.
\<close>

theorem at_most_three_examples_witness:
  "list_all (\<lambda>e. length (examples (snd e)) \<le> 3)
     (summary (build_report (\<lambda>s. [])
        [[duplicateIssue, duplicateIssue\<lparr>row_index := 2\<rparr>, duplicateIssue\<lparr>row_index := 3\<rparr>,
          duplicateIssue\<lparr>row_index := 4\<rparr>]]))
   \<and> ValidationSummary (Some sampleReport) \<noteq> None
   \<and> length (examples (snd (summary sampleReport ! 0))) = 5
   \<and> map line_row (card_lines
         (summary_cards (the (ValidationSummary (Some sampleReport))) ! 0))
       = [Some (Finite 2), Some (Finite 3), Some (Finite 4)]"
proof -
  have view: "ValidationSummary (Some sampleReport)
                = Some (the (ValidationSummary (Some sampleReport)))"
    by (simp add: ValidationSummary_def)
  have entries: "length (summary sampleReport) = 1"
    by (simp add: sampleReport_def)
  from view entries
    at_most_three_examples [of "\<lambda>s. []"
      "[[duplicateIssue, duplicateIssue\<lparr>row_index := 2\<rparr>, duplicateIssue\<lparr>row_index := 3\<rparr>,
         duplicateIssue\<lparr>row_index := 4\<rparr>]]"
      sampleReport "the (ValidationSummary (Some sampleReport))"]
  have bounded: "list_all (\<lambda>e. length (examples (snd e)) \<le> 3)
     (summary (build_report (\<lambda>s. [])
        [[duplicateIssue, duplicateIssue\<lparr>row_index := 2\<rparr>, duplicateIssue\<lparr>row_index := 3\<rparr>,
          duplicateIssue\<lparr>row_index := 4\<rparr>]]))"
    and lines: "card_lines (summary_cards (the (ValidationSummary (Some sampleReport))) ! 0)
       = map exampleLine (take 3 (examples (snd (summary sampleReport ! 0))))"
    by (simp_all add: list_all_iff)
  have shown: "map line_row (map exampleLine (take 3 (examples (snd (summary sampleReport ! 0)))))
       = [Some (Finite 2), Some (Finite 3), Some (Finite 4)]"
    by (simp add: sampleReport_def exampleLine_def rowBadge_index)
  have five: "length (examples (snd (summary sampleReport ! 0))) = 5"
    by (simp add: sampleReport_def)
  have present: "ValidationSummary (Some sampleReport) \<noteq> None"
    by (simp add: ValidationSummary_def)
  from lines shown
  have three: "map line_row (card_lines
         (summary_cards (the (ValidationSummary (Some sampleReport))) ! 0))
       = [Some (Finite 2), Some (Finite 3), Some (Finite 4)]"
    by (simp only:)
  show ?thesis
    by (rule conjI [OF bounded conjI [OF present conjI [OF five three]]])
qed

section \<open>Rule list: frame properties\<close>

text \<open>
  C7.  \<open>handleAddRule\<close> puts the new rule at the end and leaves the rules before
  it as they were, in their order.  \<open>handleRemoveRule\<close> removes the rules whose
  id is the given one and no other: what is left is a subsequence of the old
  list, it holds every rule with another id as often as before, and together
  with the rules of the given id it makes up the old list.
\<close>

theorem rule_list_maintenance:
  "rules (handleAddRule st rule) = rules st @ [rule]
   \<and> take (length (rules st)) (rules (handleAddRule st rule)) = rules st
   \<and> subseq (rules (handleRemoveRule st ruleId)) (rules st)
   \<and> mset (rules (handleRemoveRule st ruleId))
       = filter_mset (\<lambda>r. rule_id r \<noteq> ruleId) (mset (rules st))
   \<and> mset (rules st)
       = mset (rules (handleRemoveRule st ruleId))
         + filter_mset (\<lambda>r. rule_id r = ruleId) (mset (rules st))"
  by (simp add: handleAddRule_def handleRemoveRule_def)

section \<open>The data grid: round trip\<close>

lemma omit_assigned_rows:
  "map (js_omit ''id'')
     (map (\<lambda>(index, row).
             js_assign ''id'' (js_or (js_lookup row ''id'') (JNum (int index))) row)
        (enumerate n data))
   = map (js_omit ''id'') data"
  by (induction data arbitrary: n) (simp_all add: js_omit_assign)

lemma rows_round_trip_general: "handleRowsChange (rows data) = map (js_omit ''id'') data"
  unfolding handleRowsChange_def rows_def by (rule omit_assigned_rows)

text \<open>
  C8.  When no record has an \<open>id\<close> field, turning the data into grid rows and
  passing the rows through \<open>handleRowsChange\<close> gives the data back.  In general
  the round trip gives the data without its \<open>id\<close> fields: \<open>handleRowsChange\<close>
  removes the \<open>id\<close> field of every row it is given and keeps every other field.
\<close>

theorem grid_round_trip:
  "((\<forall>row \<in> set data. ''id'' \<notin> fst ` set row) \<longrightarrow> handleRowsChange (rows data) = data)
   \<and> handleRowsChange (rows data) = map (js_omit ''id'') data
   \<and> length (handleRowsChange newRows) = length newRows
   \<and> (\<forall>i < length newRows.
        map_of (handleRowsChange newRows ! i) ''id'' = None
        \<and> (\<forall>k. k \<noteq> ''id'' \<longrightarrow>
              map_of (handleRowsChange newRows ! i) k = map_of (newRows ! i) k))"
proof (intro conjI impI allI)
  assume "\<forall>row \<in> set data. ''id'' \<notin> fst ` set row"
  then have "map (js_omit ''id'') data = data"
    by (simp add: js_omit_fresh map_idI)
  then show "handleRowsChange (rows data) = data"
    by (simp add: rows_round_trip_general)
next
  show "handleRowsChange (rows data) = map (js_omit ''id'') data"
    by (rule rows_round_trip_general)
next
  show "length (handleRowsChange newRows) = length newRows"
    by (simp add: handleRowsChange_def)
next
  fix i assume "i < length newRows"
  then show "map_of (handleRowsChange newRows ! i) ''id'' = None"
    by (simp add: handleRowsChange_def map_of_js_omit_same)
next
  fix i k assume "i < length newRows" "k \<noteq> ''id''"
  then show "map_of (handleRowsChange newRows ! i) k = map_of (newRows ! i) k"
    by (simp add: handleRowsChange_def map_of_js_omit_other)
qed

text \<open>
  Two client records without an \<open>id\<close> field come back unchanged; a row with an
  \<open>id\<close> column of its own loses it and keeps its name.
\<close>

theorem grid_round_trip_witness:
  "list_all (\<lambda>row. ''id'' \<notin> fst ` set row)
     [[(''ClientID'', JStr ''C1''), (''Budget'', JNum 100)], [(''ClientID'', JStr ''C2'')]]
   \<and> handleRowsChange (rows
         [[(''ClientID'', JStr ''C1''), (''Budget'', JNum 100)], [(''ClientID'', JStr ''C2'')]])
       = [[(''ClientID'', JStr ''C1''), (''Budget'', JNum 100)], [(''ClientID'', JStr ''C2'')]]
   \<and> map_of (handleRowsChange [[(''id'', JStr ''A7''), (''Name'', JStr ''x'')]] ! 0) ''id'' = None
   \<and> map_of (handleRowsChange [[(''id'', JStr ''A7''), (''Name'', JStr ''x'')]] ! 0) ''Name''
       = Some (JStr ''x'')"
  using grid_round_trip
    [of "[[(''ClientID'', JStr ''C1''), (''Budget'', JNum 100)], [(''ClientID'', JStr ''C2'')]]"
        "[[(''id'', JStr ''A7''), (''Name'', JStr ''x'')]]"]
  by simp

section \<open>Natural-language modification: nothing changes on failure\<close>

lemma modified_call_sound:
  "(t, d) \<in> set (modified_call type m) \<Longrightarrow> t = type \<and> m = Some d \<and> d \<noteq> []"
  by (auto simp: modified_call_def split: option.splits if_splits)

lemma data_updates_sound:
  assumes "(t, d) \<in> set (data_updates resp)"
  shows "(\<exists>n. total_changes resp = Some n \<and> 0 < n) \<and> d \<noteq> []
         \<and> (t = ''clients'' \<and> modified_clients resp = Some d
            \<or> t = ''workers'' \<and> modified_workers resp = Some d
            \<or> t = ''tasks'' \<and> modified_tasks resp = Some d)"
proof -
  from assms have changed: "\<exists>n. total_changes resp = Some n \<and> 0 < n"
    by (auto simp: data_updates_def split: option.splits if_splits)
  from assms have
    "(t, d) \<in> set (modified_call ''clients'' (modified_clients resp))
     \<or> (t, d) \<in> set (modified_call ''workers'' (modified_workers resp))
     \<or> (t, d) \<in> set (modified_call ''tasks'' (modified_tasks resp))"
    by (auto simp: data_updates_def split: option.splits if_splits)
  with changed show ?thesis
    by (blast dest: modified_call_sound)
qed

lemma handleSubmit_calls:
  "snd (snd (handleSubmit st clients workers tasks reply))
     = (if trim (query st) = [] \<or> (clients = [] \<and> workers = [] \<and> tasks = []) then []
        else case reply of
               Rejected msg \<Rightarrow> []
             | Replied ok statusText body \<Rightarrow>
                 (if ok then (case body of Inl msg \<Rightarrow> [] | Inr d \<Rightarrow> data_updates d) else []))"
  by (simp add: handleSubmit_def Let_def split: http.split sum.split)

text \<open>
  C9.  When the query is blank, or no table is loaded, or the request fails, or
  the response is not ok, or reading it throws, \<open>handleSubmit\<close> makes no call of
  \<open>onDataUpdate\<close> and the page's state, its three tables included, stays as it
  was.  Every call \<open>onDataUpdate(t, d)\<close> it makes comes from an ok response that
  reports \<open>total_changes > 0\<close>, and \<open>d\<close> is the non-empty modified array of the
  entity type \<open>t\<close>.
\<close>

theorem nl_modify_atomic_on_failure:
  "((trim (query st) = [] \<or> (clientsData home = [] \<and> workersData home = [] \<and> tasksData home = [])
      \<or> (case reply of Rejected msg \<Rightarrow> True
          | Replied ok statusText body \<Rightarrow> \<not> ok \<or> isl body))
     \<longrightarrow> snd (snd (handleSubmit st (clientsData home) (workersData home) (tasksData home) reply)) = []
         \<and> submitModification home net st reply = home)
   \<and> ((t, d) \<in> set (snd (snd (handleSubmit st clients workers tasks reply)))
     \<longrightarrow> (\<exists>statusText resp n.
           reply = Replied True statusText (Inr resp)
           \<and> total_changes resp = Some n \<and> 0 < n \<and> d \<noteq> []
           \<and> (t = ''clients'' \<and> modified_clients resp = Some d
              \<or> t = ''workers'' \<and> modified_workers resp = Some d
              \<or> t = ''tasks'' \<and> modified_tasks resp = Some d)))"
proof (intro conjI impI)
  assume failure:
    "trim (query st) = [] \<or> (clientsData home = [] \<and> workersData home = [] \<and> tasksData home = [])
      \<or> (case reply of Rejected msg \<Rightarrow> True
          | Replied ok statusText body \<Rightarrow> \<not> ok \<or> isl body)"
  then show none:
    "snd (snd (handleSubmit st (clientsData home) (workersData home) (tasksData home) reply)) = []"
    unfolding handleSubmit_calls
    by (auto split: http.splits sum.splits)
  show "submitModification home net st reply = home"
    by (simp add: submitModification_def none applyDataUpdates_def)
next
  assume "(t, d) \<in> set (snd (snd (handleSubmit st clients workers tasks reply)))"
  then obtain statusText resp where
    reply: "reply = Replied True statusText (Inr resp)" and
    call: "(t, d) \<in> set (data_updates resp)"
    unfolding handleSubmit_calls
    by (auto split: http.splits sum.splits if_splits)
  from data_updates_sound [OF call] reply
  show "\<exists>statusText resp n.
           reply = Replied True statusText (Inr resp)
           \<and> total_changes resp = Some n \<and> 0 < n \<and> d \<noteq> []
           \<and> (t = ''clients'' \<and> modified_clients resp = Some d
              \<or> t = ''workers'' \<and> modified_workers resp = Some d
              \<or> t = ''tasks'' \<and> modified_tasks resp = Some d)"
    by blast
qed

text \<open>
  A response that is not ok changes nothing on the sample page; an ok response
  with one change and one modified client makes the one call for clients.
\<close>

theorem nl_modify_atomic_on_failure_witness:
  "snd (snd (handleSubmit sampleQuery (clientsData sampleHome) (workersData sampleHome)
       (tasksData sampleHome) (Replied False ''Internal Server Error'' (Inr sampleModification))))
     = []
   \<and> submitModification sampleHome (\<lambda>req. Rejected [])
       sampleQuery (Replied False ''Internal Server Error'' (Inr sampleModification))
     = sampleHome
   \<and> snd (snd (handleSubmit sampleQuery (clientsData sampleHome) [] []
       (Replied True ''OK'' (Inr sampleModification))))
     = [(''clients'', [[(''ClientID'', JStr ''C1''), (''Budget'', JNum 75000)]])]
   \<and> total_changes sampleModification = Some 1
   \<and> modified_clients sampleModification
       = Some [[(''ClientID'', JStr ''C1''), (''Budget'', JNum 75000)]]"
proof -
  have no_calls: "snd (snd (handleSubmit sampleQuery (clientsData sampleHome)
       (workersData sampleHome) (tasksData sampleHome)
       (Replied False ''Internal Server Error'' (Inr sampleModification)))) = []"
    and unchanged: "submitModification sampleHome (\<lambda>req. Rejected [])
       sampleQuery (Replied False ''Internal Server Error'' (Inr sampleModification))
     = sampleHome"
    using nl_modify_atomic_on_failure
      [of sampleQuery sampleHome "Replied False ''Internal Server Error'' (Inr sampleModification)"
          "\<lambda>req. Rejected []"]
    by simp_all
  have calls: "snd (snd (handleSubmit sampleQuery (clientsData sampleHome) [] []
       (Replied True ''OK'' (Inr sampleModification))))
     = [(''clients'', [[(''ClientID'', JStr ''C1''), (''Budget'', JNum 75000)]])]"
    by (simp add: handleSubmit_calls sampleQuery_def sampleHome_def sampleModification_def
        data_updates_def modified_call_def trim_def is_space_def)
  have fields: "total_changes sampleModification = Some 1"
    "modified_clients sampleModification
       = Some [[(''ClientID'', JStr ''C1''), (''Budget'', JNum 75000)]]"
    by (simp_all add: sampleModification_def)
  from no_calls unchanged calls fields show ?thesis
    by simp
qed

section \<open>The visual rule builder: created rules\<close>

lemma createRule_rules:
  "fst (snd (createRule st now))
     = (if truthy (js_lookup (currentRule st) ''name'')
        then [\<lparr>v_id = ''rule_'' @ string_of_nat now, v_type = vb_activeTab st,
               v_name = js_lookup (currentRule st) ''name'',
               v_parameters = currentRule st, isActive = True\<rparr>]
        else [])"
  by (simp add: createRule_def)

lemma currentRule_handleRuleChange:
  "currentRule (handleRuleChange stringify st field v) = js_assign field v (currentRule st)"
  by (simp add: handleRuleChange_def Let_def)

text \<open>
  C10.  \<open>createRule\<close> hands a rule to \<open>onAddRule\<close> exactly when the form's name is
  truthy, which for a name typed into the input means a non-empty string; with
  no name entered it adds nothing.  It adds at most one rule, and the rule is
  active, has the selected tab as its type, the entered name, and the form's
  fields as its parameters: a field set with \<open>handleRuleChange\<close> is found in the
  parameters with the value entered.
\<close>

theorem createRule_adds_named_active_rule:
  "(fst (snd (createRule st now)) \<noteq> []) = truthy (js_lookup (currentRule st) ''name'')
   \<and> (js_lookup (currentRule st) ''name'' = JStr s
        \<longrightarrow> (fst (snd (createRule st now)) \<noteq> []) = (s \<noteq> []))
   \<and> (js_lookup (currentRule st) ''name'' = JUndefined \<longrightarrow> fst (snd (createRule st now)) = [])
   \<and> length (fst (snd (createRule st now))) \<le> 1
   \<and> (\<forall>r \<in> set (fst (snd (createRule st now))).
         isActive r \<and> v_type r = vb_activeTab st \<and> v_parameters r = currentRule st
         \<and> v_name r = js_lookup (currentRule st) ''name'')
   \<and> (\<forall>r \<in> set (fst (snd (createRule (handleRuleChange stringify st field v) now))).
         js_lookup (v_parameters r) field = v)"
proof -
  have named: "(fst (snd (createRule st now)) \<noteq> []) = truthy (js_lookup (currentRule st) ''name'')"
    by (simp add: createRule_rules)
  have typed: "js_lookup (currentRule st) ''name'' = JStr s
        \<longrightarrow> (fst (snd (createRule st now)) \<noteq> []) = (s \<noteq> [])"
    by (simp add: createRule_rules)
  have absent: "js_lookup (currentRule st) ''name'' = JUndefined
        \<longrightarrow> fst (snd (createRule st now)) = []"
    by (simp add: createRule_rules)
  have one: "length (fst (snd (createRule st now))) \<le> 1"
    by (simp add: createRule_rules)
  have fields: "\<forall>r \<in> set (fst (snd (createRule st now))).
         isActive r \<and> v_type r = vb_activeTab st \<and> v_parameters r = currentRule st
         \<and> v_name r = js_lookup (currentRule st) ''name''"
    by (simp add: createRule_rules)
  have captured: "\<forall>r \<in> set (fst (snd (createRule (handleRuleChange stringify st field v) now))).
         js_lookup (v_parameters r) field = v"
    by (simp add: createRule_rules currentRule_handleRuleChange js_lookup_assign_same)
  show ?thesis
    by (rule conjI [OF named conjI [OF typed conjI [OF absent conjI [OF one
          conjI [OF fields captured]]]]])
qed

text \<open>
  On the capacity tab, a form with a name and a limit gives one active capacity
  rule holding both fields; the empty form of the initial state gives none.
\<close>

theorem createRule_adds_named_active_rule_witness:
  "js_lookup (currentRule namedForm) ''name'' = JStr ''Max three tasks''
   \<and> fst (snd (createRule namedForm 1700000000000))
     = [\<lparr>v_id = ''rule_1700000000000'', v_type = ''capacity'',
         v_name = JStr ''Max three tasks'',
         v_parameters = [(''name'', JStr ''Max three tasks''), (''maxTasks'', JNum 3)],
         isActive = True\<rparr>]
   \<and> js_lookup (currentRule initialBuilder) ''name'' = JUndefined
   \<and> fst (snd (createRule initialBuilder 1700000000000)) = []"
proof -
  have name: "js_lookup (currentRule namedForm) ''name'' = JStr ''Max three tasks''"
    by (simp add: namedForm_def js_lookup_def)
  have no_name: "js_lookup (currentRule initialBuilder) ''name'' = JUndefined"
    by (simp add: initialBuilder_def js_lookup_def)
  have id: "string_of_nat 1700000000000 = ''1700000000000''"
    by (simp add: string_of_nat.simps)
  from name
    createRule_adds_named_active_rule [of namedForm 1700000000000 "''Max three tasks''"]
  have "fst (snd (createRule namedForm 1700000000000)) \<noteq> []"
    by simp
  then have created: "fst (snd (createRule namedForm 1700000000000))
     = [\<lparr>v_id = ''rule_1700000000000'', v_type = ''capacity'',
         v_name = JStr ''Max three tasks'',
         v_parameters = [(''name'', JStr ''Max three tasks''), (''maxTasks'', JNum 3)],
         isActive = True\<rparr>]"
    by (simp add: createRule_rules id namedForm_def js_lookup_def split: if_splits)
  from no_name createRule_adds_named_active_rule [of initialBuilder 1700000000000]
  have none: "fst (snd (createRule initialBuilder 1700000000000)) = []"
    by simp
  from name created no_name none show ?thesis
    by simp
qed

end
